theory Spec2Isabelle
  imports Main "HOL-Library.Char_ord" "HOL-Library.List_Lexorder"
begin

section \<open>Python values and built-ins used by findUnusedLambdas.py\<close>

text \<open>
  A Python \<open>str\<close> is modelled as a \<open>string\<close> whose characters are the code points
  below 256; function ARNs, table names, bucket names and regions are ASCII. Exceptions
  are values of \<open>py_error\<close>.
\<close>

datatype py_error = TypeError | KeyError | IndexError | ValueError

text \<open>A command-line value: argparse yields a \<open>str\<close>; the default of \<open>--year\<close> is an \<open>int\<close>.\<close>

datatype arg_value = StrArg string | IntArg int

abbreviation nl :: string where "nl \<equiv> [CHR 0x0A]"
abbreviation sq :: string where "sq \<equiv> [CHR 0x27]"
abbreviation dq :: string where "dq \<equiv> [CHR 0x22]"

fun digits :: "nat \<Rightarrow> string" where
  "digits n = (if n < 10 then [char_of (48 + n)] else digits (n div 10) @ [char_of (48 + n mod 10)])"

declare digits.simps [simp del]

text \<open>\<open>str(i)\<close> for an \<open>int\<close>.\<close>

definition py_str_int :: "int \<Rightarrow> string" where
  "py_str_int i = (if i < 0 then CHR ''-'' # digits (nat (- i)) else digits (nat i))"

fun py_str :: "arg_value \<Rightarrow> string" where
  "py_str (StrArg s) = s"
| "py_str (IntArg i) = py_str_int i"

subsection \<open>\<open>repr\<close> of a string, \<open>str\<close> of a list and of a set\<close>

definition hexdigit :: "nat \<Rightarrow> char" where
  "hexdigit n = ''0123456789abcdef'' ! (n mod 16)"

text \<open>\<open>str.isprintable\<close> on the code points below 256.\<close>

definition py_isprintable :: "char \<Rightarrow> bool" where
  "py_isprintable ch = (let n = (of_char ch :: nat) in (32 \<le> n \<and> n < 127) \<or> (161 \<le> n \<and> n \<noteq> 173))"

text \<open>
  The quote \<open>repr\<close> chooses: a double quote when the string holds a single quote and no
  double quote, a single quote otherwise.
\<close>

definition repr_quote :: "string \<Rightarrow> char" where
  "repr_quote s = (if CHR 0x27 \<in> set s \<and> CHR 0x22 \<notin> set s then CHR 0x22 else CHR 0x27)"

definition repr_char :: "char \<Rightarrow> char \<Rightarrow> string" where
  "repr_char quote ch =
     (if ch = quote \<or> ch = CHR 0x5C then [CHR 0x5C, ch]
      else if ch = CHR 0x09 then [CHR 0x5C, CHR ''t'']
      else if ch = CHR 0x0A then [CHR 0x5C, CHR ''n'']
      else if ch = CHR 0x0D then [CHR 0x5C, CHR ''r'']
      else if py_isprintable ch then [ch]
      else [CHR 0x5C, CHR ''x'', hexdigit (of_char ch div 16), hexdigit (of_char ch mod 16)])"

definition py_repr :: "string \<Rightarrow> string" where
  "py_repr s = (let quote = repr_quote s in quote # concat (map (repr_char quote) s) @ [quote])"

fun join :: "string \<Rightarrow> string list \<Rightarrow> string" where
  "join sep [] = []"
| "join sep [x] = x"
| "join sep (x # y # ys) = x @ sep @ join sep (y # ys)"

text \<open>\<open>str(xs)\<close> for a list of strings.\<close>

definition py_str_list :: "string list \<Rightarrow> string" where
  "py_str_list xs = ''['' @ join '', '' (map py_repr xs) @ '']''"

text \<open>\<open>str(s)\<close> for a set of strings, given the elements in the set's iteration order.\<close>

definition py_str_set :: "string list \<Rightarrow> string" where
  "py_str_set xs = (if xs = [] then ''set()'' else ''{'' @ join '', '' (map py_repr xs) @ ''}'')"

text \<open>The slice \<open>s[1:-1]\<close>.\<close>

definition slice_1_m1 :: "'a list \<Rightarrow> 'a list" where
  "slice_1_m1 s = butlast (drop 1 s)"

subsection \<open>\<open>str.lstrip\<close> and \<open>str.lower\<close>\<close>

definition lstrip :: "string \<Rightarrow> string \<Rightarrow> string" where
  "lstrip chars s = dropWhile (\<lambda>c. c \<in> set chars) s"

definition lower_char :: "char \<Rightarrow> char" where
  "lower_char ch =
     (let n = (of_char ch :: nat)
      in if (65 \<le> n \<and> n \<le> 90) \<or> (192 \<le> n \<and> n \<le> 222 \<and> n \<noteq> 215) then char_of (n + 32) else ch)"

definition str_lower :: "string \<Rightarrow> string" where
  "str_lower s = map lower_char s"

subsection \<open>\<open>str.format\<close>\<close>

text \<open>
  The replacement fields of the three SQL templates are \<open>{index}\<close> and \<open>{keyword}\<close>;
  \<open>{{\<close> and \<open>}}\<close> stand for a brace. An index beyond the positional arguments
  raises \<open>IndexError\<close>, an unknown keyword \<open>KeyError\<close>, a brace without its partner
  \<open>ValueError\<close>, the first of them from the left. Conversions, format specifications,
  attribute and item access and automatic numbering occur in none of the templates and
  are left out.
\<close>

definition is_digit :: "char \<Rightarrow> bool" where
  "is_digit ch = (let n = (of_char ch :: nat) in 48 \<le> n \<and> n \<le> 57)"

fun nat_of_digits :: "nat \<Rightarrow> string \<Rightarrow> nat" where
  "nat_of_digits acc [] = acc"
| "nat_of_digits acc (c # cs) = nat_of_digits (10 * acc + (of_char c - 48)) cs"

definition get_field :: "string \<Rightarrow> string list \<Rightarrow> (string \<times> string) list \<Rightarrow> py_error + string" where
  "get_field name args kwargs =
     (if name \<noteq> [] \<and> list_all is_digit name then
        (let i = nat_of_digits 0 name in if i < length args then Inr (args ! i) else Inl IndexError)
      else (case map_of kwargs name of None \<Rightarrow> Inl KeyError | Some v \<Rightarrow> Inr v))"

function py_format :: "string \<Rightarrow> string list \<Rightarrow> (string \<times> string) list \<Rightarrow> py_error + string" where
  "py_format [] args kwargs = Inr []"
| "py_format (c # cs) args kwargs =
     (if c = CHR ''{'' then
        (if cs \<noteq> [] \<and> hd cs = CHR ''{'' then
           (case py_format (tl cs) args kwargs of Inl e \<Rightarrow> Inl e | Inr s \<Rightarrow> Inr (CHR ''{'' # s))
         else if dropWhile (\<lambda>x. x \<noteq> CHR ''}'') cs = [] then Inl ValueError
         else
           (case get_field (takeWhile (\<lambda>x. x \<noteq> CHR ''}'') cs) args kwargs of
              Inl e \<Rightarrow> Inl e
            | Inr v \<Rightarrow>
                (case py_format (tl (dropWhile (\<lambda>x. x \<noteq> CHR ''}'') cs)) args kwargs of
                   Inl e \<Rightarrow> Inl e
                 | Inr s \<Rightarrow> Inr (v @ s))))
      else if c = CHR ''}'' then
        (if cs \<noteq> [] \<and> hd cs = CHR ''}'' then
           (case py_format (tl cs) args kwargs of Inl e \<Rightarrow> Inl e | Inr s \<Rightarrow> Inr (CHR ''}'' # s))
         else Inl ValueError)
      else (case py_format cs args kwargs of Inl e \<Rightarrow> Inl e | Inr s \<Rightarrow> Inr (c # s)))"
  by pat_completeness auto
termination
proof -
  have d: "length (dropWhile P cs) - Suc 0 < Suc (length cs)" for P and cs :: string
    using length_dropWhile_le [of P cs] by simp
  show ?thesis
    by (relation "measure (\<lambda>(s, args, kwargs). length s)") (auto simp: d)
qed

text \<open>
  A template cut into pieces, each plain text (no brace) or one replacement field;
  \<open>fill\<close> is what \<open>format\<close> puts in the place of a piece.
\<close>

definition plain :: "string \<Rightarrow> bool" where
  "plain s = list_all (\<lambda>ch. ch \<noteq> CHR ''{'' \<and> ch \<noteq> CHR ''}'') s"

definition field_name :: "string \<Rightarrow> string" where
  "field_name p = butlast (tl p)"

definition is_field :: "string \<Rightarrow> bool" where
  "is_field p = (2 < length p \<and> hd p = CHR ''{'' \<and> last p = CHR ''}'' \<and> plain (field_name p))"

definition fill :: "string list \<Rightarrow> (string \<times> string) list \<Rightarrow> string \<Rightarrow> string" where
  "fill args kwargs p = (if plain p then p else projr (get_field (field_name p) args kwargs))"

definition piece_ok :: "string list \<Rightarrow> (string \<times> string) list \<Rightarrow> string \<Rightarrow> bool" where
  "piece_ok args kwargs p = (plain p \<or> (is_field p \<and> \<not> isl (get_field (field_name p) args kwargs)))"

section \<open>The world the script runs in\<close>

text \<open>
  How a call ends: it returns a value, raises an exception, or leaves the process through
  \<open>sys.exit()\<close>, which the script only calls without an argument.
\<close>

datatype 'a result = Returns 'a | Raises py_error | SysExit

text \<open>
  The exit status of the process: 0 when \<open>main\<close> returns, 0 for \<open>sys.exit()\<close> without an
  argument, 1 for an exception that nothing catches.
\<close>

fun exit_status :: "'a result \<Rightarrow> int" where
  "exit_status (Returns v) = 0"
| "exit_status SysExit = 0"
| "exit_status (Raises e) = 1"

text \<open>The parsed command line.\<close>

record args =
  arg_region :: string
  arg_profile :: string
  arg_athena_s3_bucket_name :: string
  arg_table_name :: string
  arg_cloudtrail_s3_bucket_name :: string
  arg_year :: arg_value

text \<open>
  A result row is \<open>row['Data']\<close>: a list of cells, each with (\<open>Some\<close>) or without
  (\<open>None\<close>) a \<open>VarCharValue\<close>.
\<close>

type_synonym row = "string option list"

text \<open>The three Athena requests of the script, with their arguments.\<close>

datatype athena_call =
    StartQueryExecution string string string
  | GetQueryExecution string
  | GetQueryResults string

text \<open>
  The analytics engine is external. Each answer is a function of the requests made so far,
  the one being answered last: the \<open>QueryExecutionId\<close> of a submission, the \<open>State\<close> of a
  status request, the \<open>Rows\<close> of the \<open>ResultSet\<close> of a result request.
\<close>

record athena =
  query_execution_id :: "athena_call list \<Rightarrow> string"
  execution_state :: "athena_call list \<Rightarrow> string"
  result_rows :: "athena_call list \<Rightarrow> row list"

text \<open>
  A printed line: plain text, or \<open>emoji.emojize(template, language='alias')\<close> formatted
  with the given values and followed by a suffix. The emoji library is not interpreted.
\<close>

datatype printed = Text string | Emojized string "string list" string

text \<open>
  The environment: the terminal width of \<open>get_terminal_size()[0]\<close> and the order in
  which Python iterates over a set of strings.
\<close>

record env =
  columns :: nat
  set_iteration :: "string set \<Rightarrow> string list"

text \<open>
  The mutable state: what has been printed, the requests sent to Athena, the seconds slept,
  and the two \<open>count\<close> attributes that the script hangs off its functions.
\<close>

record world =
  stdout :: "printed list"
  calls :: "athena_call list"
  slept :: nat
  retrieve_function_arns_count :: int
  get_set_of_function_arns_from_result_set_count :: int

definition py_print :: "printed \<Rightarrow> world \<Rightarrow> world" where
  "py_print x w = w\<lparr>stdout := stdout w @ [x]\<rparr>"

section \<open>build_query_strings\<close>

text \<open>
  The three templates, each written as the list of its pieces: the text between the
  replacement fields, cut at the line ends and at the quotes, and the fields themselves.
\<close>

definition create_table_query_pieces :: "string list" where
  "create_table_query_pieces =
    [''CREATE EXTERNAL TABLE '', ''{0}'', '' ('', nl,
     ''            eventversion STRING,'', nl,
     ''            userIdentity STRUCT<'', nl,
     ''            type:STRING,'', nl,
     ''            principalid:STRING,'', nl,
     ''            arn:STRING,'', nl,
     ''            accountid:STRING,'', nl,
     ''            invokedby:STRING,'', nl,
     ''            accesskeyid:STRING,'', nl,
     ''            userName:STRING,'', nl,
     ''            sessioncontext:STRUCT<'', nl,
     ''                attributes:STRUCT<'', nl,
     ''                mfaauthenticated:STRING,'', nl,
     ''                creationdate:STRING>,'', nl,
     ''                sessionIssuer:STRUCT<'', nl,
     ''                type:STRING,'', nl,
     ''                principalId:STRING,'', nl,
     ''                arn:STRING,'', nl,
     ''                accountId:STRING,'', nl,
     ''                userName:STRING>>>,'', nl,
     ''            eventTime STRING,'', nl,
     ''            eventSource STRING,'', nl,
     ''            eventName STRING,'', nl,
     ''            awsRegion STRING,'', nl,
     ''            sourceIpAddress STRING,'', nl,
     ''            userAgent STRING,'', nl,
     ''            errorCode STRING,'', nl,
     ''            errorMessage STRING,'', nl,
     ''            requestParameters STRING,'', nl,
     ''            responseElements STRING,'', nl,
     ''            additionalEventData STRING,'', nl,
     ''            requestId STRING,'', nl,
     ''            eventId STRING,'', nl,
     ''            resources ARRAY<STRUCT<'', nl,
     ''            ARN:STRING,accountId:'', nl,
     ''            STRING,type:STRING>>,'', nl,
     ''            eventType STRING,'', nl,
     ''            apiVersion STRING,'', nl,
     ''            readOnly STRING,'', nl,
     ''            recipientAccountId STRING,'', nl,
     ''            serviceEventDetails STRING,'', nl,
     ''            sharedEventID STRING,'', nl,
     ''            vpcEndpointId STRING'', nl,
     ''            )'', nl,
     ''            PARTITIONED BY(year string)'', nl,
     ''            ROW FORMAT SERDE '', sq, ''com.amazon.emr.hive.serde.CloudTrailSerde'', sq, nl,
     ''            STORED AS INPUTFORMAT '', sq, ''com.amazon.emr.cloudtrail.CloudTrailInputFormat'', sq, nl,
     ''            OUTPUTFORMAT '', sq, ''org.apache.hadoop.hive.ql.io.HiveIgnoreKeyTextOutputFormat'', sq, nl,
     ''            LOCATION '', sq, ''{1}'', sq, '';'']"

definition create_table_query_template :: string where
  "create_table_query_template = concat create_table_query_pieces"

definition create_partiton_query_pieces :: "string list" where
  "create_partiton_query_pieces =
    [nl,
     ''    ALTER TABLE '', ''{0}'', '' add partition (year='', dq, ''{3}'', dq, '')'', nl,
     ''    location '', sq, ''{1}'', ''/CloudTrail/'', ''{2}'', ''/'', ''{3}'', ''/'', sq]"

definition create_partiton_query_template :: string where
  "create_partiton_query_template = concat create_partiton_query_pieces"

definition last_run_query_pieces :: "string list" where
  "last_run_query_pieces =
    [nl,
     ''    select json_extract_scalar(requestparameters, '', sq, ''$.functionName'', sq, '') as function_name, Max (eventtime) as '', dq, ''Last Run'', dq, nl,
     ''    from '', ''{0}'', nl,
     ''    where eventname='', sq, ''Invoke'', sq, nl,
     ''    and year='', sq, ''{1}'', sq, nl,
     ''    and from_iso8601_timestamp(eventtime) > current_timestamp - interval '', sq, ''1'', sq, '' month'', nl,
     ''    and json_extract_scalar(requestparameters, '', sq, ''$.functionName'', sq, '') in ('', ''{function_arns}'', '')'', nl,
     ''    group by json_extract_scalar(requestparameters, '', sq, ''$.functionName'', sq, '')'']"

definition last_run_query_template :: string where
  "last_run_query_template = concat last_run_query_pieces"

definition build_query_strings ::
  "env \<Rightarrow> string list \<Rightarrow> string \<Rightarrow> string \<Rightarrow> arg_value \<Rightarrow> string \<Rightarrow> world
    \<Rightarrow> world \<times> (string \<times> string \<times> string) result" where
  "build_query_strings E function_arns table_name cloudtrail_s3_bucket_name year region w =
     (let w1 = py_print (Text (replicate (columns E) CHR ''-'')) w;
          function_arns_csv = slice_1_m1 (py_str_list function_arns)
      in case py_format create_table_query_template [table_name, cloudtrail_s3_bucket_name] [] of
           Inl e \<Rightarrow> (w1, Raises e)
         | Inr create_table_query \<Rightarrow>
        (case py_format create_partiton_query_template
                [table_name, cloudtrail_s3_bucket_name, region, py_str year] [] of
           Inl e \<Rightarrow> (w1, Raises e)
         | Inr create_partition_query \<Rightarrow>
        (case py_format last_run_query_template [table_name, py_str year]
                [(''function_arns'', function_arns_csv)] of
           Inl e \<Rightarrow> (w1, Raises e)
         | Inr last_run_query \<Rightarrow>
             (w1, Returns (create_table_query, create_partition_query, last_run_query)))))"

section \<open>retrieve_function_arns\<close>

text \<open>
  \<open>functions\<close> is the list of the \<open>FunctionArn\<close> values in the \<open>Functions\<close> of the answer of
  \<open>list_functions()\<close>. The loop appends each one and counts it in the attribute \<open>count\<close>.
\<close>

fun retrieve_loop :: "string list \<Rightarrow> string list \<Rightarrow> world \<Rightarrow> string list \<times> world" where
  "retrieve_loop [] function_arns w = (function_arns, w)"
| "retrieve_loop (fn # fns) function_arns w =
     retrieve_loop fns (function_arns @ [fn])
       (w\<lparr>retrieve_function_arns_count := retrieve_function_arns_count w + 1\<rparr>)"

definition retrieve_function_arns :: "string list \<Rightarrow> string \<Rightarrow> world \<Rightarrow> world \<times> string list result" where
  "retrieve_function_arns functions region w =
     (case retrieve_loop functions [] (w\<lparr>retrieve_function_arns_count := 0\<rparr>) of
        (function_arns, w1) \<Rightarrow>
          (let w2 = py_print (Emojized '':information:  Found {} functions in the AWS ''
                      [py_str_int (retrieve_function_arns_count w1)] (region @ '' region'' @ nl)) w1
           in if retrieve_function_arns_count w1 = 0
              then (py_print (Emojized '':heavy_exclamation_mark:  The script will now exit!'' [] []) w2,
                    SysExit)
              else (w2, Returns function_arns)))"

section \<open>run_query\<close>

text \<open>
  The polling loop has no bound in the script. Here it takes fuel, the number of status
  requests it may make, and \<open>None\<close> stands for a loop that has not ended within it.
  The loop ends with \<open>False\<close> when the state is \<open>FAILED\<close> (the script returns nothing then)
  and with \<open>True\<close> when the state is \<open>SUCCEEDED\<close>.
\<close>

fun poll :: "nat \<Rightarrow> athena \<Rightarrow> string \<Rightarrow> world \<Rightarrow> (world \<times> bool) option" where
  "poll 0 A qid w = None"
| "poll (Suc n) A qid w =
     (let w1 = w\<lparr>calls := calls w @ [GetQueryExecution (lstrip ''ID'' qid)]\<rparr>;
          execution_status = execution_state A (calls w1)
      in if execution_status = ''FAILED''
         then Some (py_print (Text ''The query failed. Check the Athena history for details.'') w1, False)
         else (let w2 = py_print (Text ''Running'') w1;
                   w3 = w2\<lparr>slept := slept w2 + 5\<rparr>
               in if execution_status \<noteq> ''SUCCEEDED'' then poll n A qid w3 else Some (w3, True)))"

text \<open>The value of \<open>run_query\<close> is \<open>None\<close> (Python's) after \<open>FAILED\<close> and the rows after \<open>SUCCEEDED\<close>.\<close>

definition run_query ::
  "nat \<Rightarrow> athena \<Rightarrow> string \<Rightarrow> string \<Rightarrow> string \<Rightarrow> world \<Rightarrow> (world \<times> row list option) option" where
  "run_query fuel A query region athena_s3_bucket_name w =
     (let w1 = w\<lparr>calls := calls w @
                 [StartQueryExecution query ''default'' (athena_s3_bucket_name @ ''-'' @ region)]\<rparr>;
          qid = query_execution_id A (calls w1);
          w2 = py_print (Text (''Query Execution ID: '' @ qid)) w1
      in case poll fuel A qid w2 of
           None \<Rightarrow> None
         | Some (w3, False) \<Rightarrow> Some (w3, None)
         | Some (w3, True) \<Rightarrow>
             (let w4 = w3\<lparr>calls := calls w3 @ [GetQueryResults qid]\<rparr>
              in Some (w4, Some (result_rows A (calls w4)))))"

section \<open>get_set_of_function_arns_from_result_set\<close>

fun extract_loop :: "row list \<Rightarrow> string set \<Rightarrow> world \<Rightarrow> world \<times> string set result" where
  "extract_loop [] set_of_functions_used w = (w, Returns set_of_functions_used)"
| "extract_loop (row # rows) set_of_functions_used w =
     (let w1 = w\<lparr>get_set_of_function_arns_from_result_set_count :=
                   get_set_of_function_arns_from_result_set_count w + 1\<rparr>
      in case row of
           [] \<Rightarrow> (w1, Raises IndexError)
         | None # cells \<Rightarrow> (w1, Raises KeyError)
         | Some function_arn # cells \<Rightarrow> extract_loop rows (insert function_arn set_of_functions_used) w1)"

definition get_set_of_function_arns_from_result_set :: "row list \<Rightarrow> world \<Rightarrow> world \<times> string set result" where
  "get_set_of_function_arns_from_result_set result_set w =
     extract_loop (drop 1 result_set) {} (w\<lparr>get_set_of_function_arns_from_result_set_count := 0\<rparr>)"

section \<open>main\<close>

text \<open>The list comprehension of \<open>main\<close> that runs the queries one after the other.\<close>

fun run_queries ::
  "nat \<Rightarrow> athena \<Rightarrow> string list \<Rightarrow> string \<Rightarrow> string \<Rightarrow> world \<Rightarrow> (world \<times> row list option list) option" where
  "run_queries fuel A [] region athena_s3_bucket_name w = Some (w, [])"
| "run_queries fuel A (q # qs) region athena_s3_bucket_name w =
     (case run_query fuel A q region athena_s3_bucket_name w of
        None \<Rightarrow> None
      | Some (w1, r) \<Rightarrow>
          (case run_queries fuel A qs region athena_s3_bucket_name w1 of
             None \<Rightarrow> None
           | Some (w2, rs) \<Rightarrow> Some (w2, r # rs)))"

text \<open>The local variables of \<open>main\<close> when it returns.\<close>

record report =
  rep_function_arns :: "string list"
  rep_result_set :: "row list"
  rep_set_of_functions_used :: "string set"
  rep_unusedcount :: int
  rep_difference_list :: "string list"

text \<open>
  The end of \<open>main\<close>, from \<open>print("Completed queries")\<close> on. Subscripting the value of the
  last query raises \<open>TypeError\<close> when that value is \<open>None\<close>.
\<close>

definition reconcile :: "env \<Rightarrow> string list \<Rightarrow> row list option list \<Rightarrow> world \<Rightarrow> world \<times> report result" where
  "reconcile E function_arns query_results w =
     (let w1 = py_print (Text ''Completed queries'') w
      in case last query_results of
           None \<Rightarrow> (w1, Raises TypeError)
         | Some result_set \<Rightarrow>
        (case get_set_of_function_arns_from_result_set result_set
                (py_print (Text ''Retrieved results'') w1) of
           (w2, SysExit) \<Rightarrow> (w2, SysExit)
         | (w2, Raises e) \<Rightarrow> (w2, Raises e)
         | (w2, Returns set_of_functions_used) \<Rightarrow>
             (let w3 = py_print (Text (py_str_set (set_iteration E set_of_functions_used))) w2;
                  unusedcount = retrieve_function_arns_count w3
                                - get_set_of_function_arns_from_result_set_count w3;
                  w4 = py_print (Text (nl @ ''Out of the '' @ py_str_int (retrieve_function_arns_count w3)
                         @ '', there are '' @ py_str_int unusedcount
                         @ '' functions that haven'' @ sq @ ''t been invoked in the past 30 days'')) w3;
                  difference_list =
                    sort_key str_lower (set_iteration E (set function_arns - set_of_functions_used));
                  w5 = foldl (\<lambda>v stale_function_arn. py_print (Text stale_function_arn) v) w4 difference_list;
                  w6 = py_print (Emojized '':checkered_flag:  Done!'' [] []) w5;
                  w7 = py_print (Text (replicate (columns E) CHR ''-'')) w6
              in (w7, Returns \<lparr>rep_function_arns = function_arns, rep_result_set = result_set,
                               rep_set_of_functions_used = set_of_functions_used,
                               rep_unusedcount = unusedcount,
                               rep_difference_list = difference_list\<rparr>))))"

text \<open>
  \<open>main\<close> from the creation of the clients on; the parsing of the command line and the
  version diagnostics come before and touch none of the state below.
\<close>

definition main :: "nat \<Rightarrow> env \<Rightarrow> athena \<Rightarrow> string list \<Rightarrow> args \<Rightarrow> world \<Rightarrow> (world \<times> report result) option" where
  "main fuel E A functions args w =
     (case retrieve_function_arns functions (arg_region args) w of
        (w1, SysExit) \<Rightarrow> Some (w1, SysExit)
      | (w1, Raises e) \<Rightarrow> Some (w1, Raises e)
      | (w1, Returns function_arns) \<Rightarrow>
     (case build_query_strings E function_arns (arg_table_name args)
             (arg_cloudtrail_s3_bucket_name args) (arg_year args) (arg_region args) w1 of
        (w2, SysExit) \<Rightarrow> Some (w2, SysExit)
      | (w2, Raises e) \<Rightarrow> Some (w2, Raises e)
      | (w2, Returns (create_table_query, create_partition_query, last_run_query)) \<Rightarrow>
     (case run_queries fuel A [create_table_query, create_partition_query, last_run_query]
             (arg_region args) (arg_athena_s3_bucket_name args)
             (py_print (Text ''Starting queries'') w2) of
        None \<Rightarrow> None
      | Some (w3, query_results) \<Rightarrow> Some (reconcile E function_arns query_results w3))))"

section \<open>Notions the properties are stated with\<close>

text \<open>The world after \<open>k\<close> status requests for the execution id \<open>qid\<close>, none of them final.\<close>

definition polled :: "nat \<Rightarrow> string \<Rightarrow> world \<Rightarrow> world" where
  "polled k qid w =
     w\<lparr>calls := calls w @ replicate k (GetQueryExecution (lstrip ''ID'' qid)),
       stdout := stdout w @ replicate k (Text ''Running''),
       slept := slept w + 5 * k\<rparr>"

text \<open>The statements submitted to the engine, in order.\<close>

fun submitted :: "athena_call list \<Rightarrow> string list" where
  "submitted [] = []"
| "submitted (StartQueryExecution q d l # cs) = q # submitted cs"
| "submitted (GetQueryExecution i # cs) = submitted cs"
| "submitted (GetQueryResults i # cs) = submitted cs"





text \<open>The location of the partition as the specification words it.\<close>

definition partition_location :: "string \<Rightarrow> string \<Rightarrow> string \<Rightarrow> string" where
  "partition_location location region year = location @ ''/CloudTrail/'' @ region @ ''/'' @ year @ ''/''"

section \<open>Concrete runs\<close>

definition example_world :: world where
  "example_world = \<lparr>stdout = [], calls = [], slept = 0, retrieve_function_arns_count = 0,
     get_set_of_function_arns_from_result_set_count = 0\<rparr>"

definition example_env :: env where
  "example_env = \<lparr>columns = 80, set_iteration = sorted_list_of_set\<rparr>"

definition example_args :: args where
  "example_args = \<lparr>arg_region = ''us-east-1'', arg_profile = ''default'',
     arg_athena_s3_bucket_name = ''s3://staging'', arg_table_name = ''cloudtrail_lambda_logs'',
     arg_cloudtrail_s3_bucket_name = ''s3://trail'', arg_year = IntArg 2024\<rparr>"

text \<open>The header row of the usage query.\<close>

definition header :: row where
  "header = [Some ''function_name'', Some ''Last Run'']"

text \<open>An engine whose jobs have succeeded at the first status request; no function was invoked.\<close>

definition engine_succeeds :: athena where
  "engine_succeeds = \<lparr>query_execution_id = (\<lambda>h. ''7c1d''),
     execution_state = (\<lambda>h. ''SUCCEEDED''), result_rows = (\<lambda>h. [header])\<rparr>"

text \<open>An engine whose first job answers \<open>RUNNING\<close>, \<open>RUNNING\<close>, \<open>SUCCEEDED\<close>.\<close>

definition engine_running_twice :: athena where
  "engine_running_twice = \<lparr>query_execution_id = (\<lambda>h. ''7c1d''),
     execution_state = (\<lambda>h. if length h < 4 then ''RUNNING'' else ''SUCCEEDED''),
     result_rows = (\<lambda>h. [header])\<rparr>"

text \<open>An engine whose execution ids begin with \<open>ID\<close>.\<close>

definition engine_ID :: athena where
  "engine_ID = \<lparr>query_execution_id = (\<lambda>h. ''ID-7''),
     execution_state = (\<lambda>h. ''SUCCEEDED''), result_rows = (\<lambda>h. [header])\<rparr>"

text \<open>An engine whose first job fails and whose later jobs succeed.\<close>

definition engine_first_fails :: athena where
  "engine_first_fails = \<lparr>query_execution_id = (\<lambda>h. ''7c1d''),
     execution_state = (\<lambda>h. if length (submitted h) = 1 then ''FAILED'' else ''SUCCEEDED''),
     result_rows = (\<lambda>h. [header])\<rparr>"

text \<open>An engine whose jobs all fail.\<close>

definition engine_fails :: athena where
  "engine_fails = \<lparr>query_execution_id = (\<lambda>h. ''7c1d''),
     execution_state = (\<lambda>h. ''FAILED''), result_rows = (\<lambda>h. [header])\<rparr>"

text \<open>An engine that reports the function \<open>b\<close> as invoked.\<close>

definition engine_used_b :: athena where
  "engine_used_b = \<lparr>query_execution_id = (\<lambda>h. ''7c1d''),
     execution_state = (\<lambda>h. ''SUCCEEDED''),
     result_rows = (\<lambda>h. [header, [Some ''b'', Some ''2024-05-01T00:00:00Z'']])\<rparr>"



section \<open>Formatting a template piece by piece\<close>

lemma py_format_plain:
  "plain s \<Longrightarrow>
   py_format (s @ r) a k = (case py_format r a k of Inl e \<Rightarrow> Inl e | Inr t \<Rightarrow> Inr (s @ t))"
  by (induction s) (auto simp: plain_def split: sum.splits)

lemma is_field_decomp:
  assumes "is_field p"
  shows "p = CHR ''{'' # field_name p @ ''}'' \<and> field_name p \<noteq> []"
proof (cases p)
  case Nil
  with assms show ?thesis by (simp add: is_field_def)
next
  case (Cons x xs)
  with assms have len: "2 \<le> length xs" and x: "x = CHR ''{''" and l: "last xs = CHR ''}''"
    by (auto simp: is_field_def split: if_splits)
  from len have ne: "xs \<noteq> []" by auto
  then have "xs = butlast xs @ [last xs]" by simp
  with l have xs: "xs = butlast xs @ ''}''" by simp
  from len have "butlast xs \<noteq> []" by (cases xs) auto
  with Cons x xs show ?thesis by (simp add: field_name_def)
qed

lemma py_format_field:
  assumes "plain n" "n \<noteq> []"
  shows "py_format (CHR ''{'' # n @ ''}'' @ r) a k =
     (case get_field n a k of Inl e \<Rightarrow> Inl e
      | Inr v \<Rightarrow> (case py_format r a k of Inl e \<Rightarrow> Inl e | Inr t \<Rightarrow> Inr (v @ t)))"
proof -
  have nb: "\<forall>x\<in>set n. x \<noteq> CHR ''}''" and hdn: "hd n \<noteq> CHR ''{''"
    using assms by (cases n; auto simp: plain_def list_all_iff)+
  have tw: "takeWhile (\<lambda>x. x \<noteq> CHR ''}'') (n @ ''}'' @ r) = n"
    using nb by simp
  have dw: "dropWhile (\<lambda>x. x \<noteq> CHR ''}'') (n @ ''}'' @ r) = ''}'' @ r"
    using nb by simp
  have hd': "hd (n @ ''}'' @ r) \<noteq> CHR ''{''"
    using hdn assms(2) by simp
  show ?thesis
    using tw dw hd' by (simp split: sum.splits)
qed

lemma py_format_pieces:
  "list_all (piece_ok a k) ps \<Longrightarrow> py_format (concat ps) a k = Inr (concat (map (fill a k) ps))"
proof (induction ps)
  case Nil
  then show ?case by simp
next
  case (Cons p ps)
  then have ih: "py_format (concat ps) a k = Inr (concat (map (fill a k) ps))"
    and ok: "piece_ok a k p" by simp_all
  show ?case
  proof (cases "plain p")
    case True
    then have "fill a k p = p" by (simp add: fill_def)
    with True show ?thesis using ih by (simp add: py_format_plain)
  next
    case False
    with ok have f: "is_field p" and g: "\<not> isl (get_field (field_name p) a k)"
      by (auto simp: piece_ok_def)
    from f have pl: "plain (field_name p)" by (simp add: is_field_def)
    from is_field_decomp [OF f]
    have p: "p = CHR ''{'' # field_name p @ ''}''" and ne: "field_name p \<noteq> []"
      by simp_all
    from g obtain v where v: "get_field (field_name p) a k = Inr v"
      by (cases "get_field (field_name p) a k") auto
    have "py_format (concat (p # ps)) a k =
          py_format (CHR ''{'' # field_name p @ ''}'' @ concat ps) a k"
      using p by (metis append_Cons append_assoc concat.simps(2))
    also have "\<dots> = Inr (v @ concat (map (fill a k) ps))"
      using py_format_field [OF pl ne] v ih by simp
    finally have "py_format (concat (p # ps)) a k = Inr (v @ concat (map (fill a k) ps))" .
    moreover have "fill a k p = v" using False v by (simp add: fill_def)
    ultimately show ?thesis by simp
  qed
qed

lemmas piece_eval = piece_ok_def plain_def is_field_def field_name_def get_field_def is_digit_def

lemma create_table_query_pieces_ok: "list_all (piece_ok [t, c] []) create_table_query_pieces"
  unfolding create_table_query_pieces_def by (simp add: piece_eval)

lemma create_partiton_query_pieces_ok: "list_all (piece_ok [t, c, r, y] []) create_partiton_query_pieces"
  unfolding create_partiton_query_pieces_def by (simp add: piece_eval)

lemma last_run_query_pieces_ok:
  "list_all (piece_ok [t, y] [(''function_arns'', f)]) last_run_query_pieces"
  unfolding last_run_query_pieces_def by (simp add: piece_eval)

lemma build_query_strings_eq:
  "build_query_strings E function_arns t c y r w =
     (py_print (Text (replicate (columns E) CHR ''-'')) w,
      Returns (concat (map (fill [t, c] []) create_table_query_pieces),
               concat (map (fill [t, c, r, py_str y] []) create_partiton_query_pieces),
               concat (map (fill [t, py_str y]
                             [(''function_arns'', slice_1_m1 (py_str_list function_arns))])
                         last_run_query_pieces)))"
  by (simp add: build_query_strings_def create_table_query_template_def
      create_partiton_query_template_def last_run_query_template_def
      py_format_pieces create_table_query_pieces_ok create_partiton_query_pieces_ok
      last_run_query_pieces_ok)

lemma create_partition_query_eq:
  "concat (map (fill [t, c, r, y] []) create_partiton_query_pieces) =
     nl @ ''    ALTER TABLE '' @ t @ '' add partition (year='' @ dq @ y @ dq @ '')'' @ nl @
     ''    location '' @ sq @ c @ ''/CloudTrail/'' @ r @ ''/'' @ y @ ''/'' @ sq"
  unfolding create_partiton_query_pieces_def
  by (simp add: fill_def plain_def field_name_def get_field_def is_digit_def)

section \<open>The inventory fetch\<close>

lemma retrieve_loop_eq:
  "retrieve_loop fns acc w =
     (acc @ fns, w\<lparr>retrieve_function_arns_count := retrieve_function_arns_count w + int (length fns)\<rparr>)"
  by (induction fns arbitrary: acc w) simp_all

lemma retrieve_function_arns_empty:
  "retrieve_function_arns [] region w =
     (w\<lparr>retrieve_function_arns_count := 0,
        stdout := stdout w @
          [Emojized '':information:  Found {} functions in the AWS '' [py_str_int 0] (region @ '' region'' @ nl),
           Emojized '':heavy_exclamation_mark:  The script will now exit!'' [] []]\<rparr>,
      SysExit)"
  by (simp add: retrieve_function_arns_def py_print_def)

lemma retrieve_function_arns_nonempty:
  "functions \<noteq> [] \<Longrightarrow>
   retrieve_function_arns functions region w =
     (w\<lparr>retrieve_function_arns_count := int (length functions),
        stdout := stdout w @
          [Emojized '':information:  Found {} functions in the AWS ''
             [py_str_int (int (length functions))] (region @ '' region'' @ nl)]\<rparr>,
      Returns functions)"
  by (simp add: retrieve_function_arns_def retrieve_loop_eq py_print_def)

section \<open>The polling loop\<close>

lemma poll_Some:
  "poll n A qid w = Some (w', ok) \<Longrightarrow>
   \<exists>k. 0 < k \<and> k \<le> n
     \<and> calls w' = calls w @ replicate k (GetQueryExecution (lstrip ''ID'' qid))
     \<and> execution_state A (calls w') = (if ok then ''SUCCEEDED'' else ''FAILED'')
     \<and> stdout w' = stdout w @ (if ok then replicate k (Text ''Running'')
          else replicate (k - 1) (Text ''Running'')
               @ [Text ''The query failed. Check the Athena history for details.''])
     \<and> slept w' = slept w + 5 * (if ok then k else k - 1)
     \<and> retrieve_function_arns_count w' = retrieve_function_arns_count w
     \<and> get_set_of_function_arns_from_result_set_count w' = get_set_of_function_arns_from_result_set_count w"
proof (induction n arbitrary: w)
  case 0
  then show ?case by simp
next
  case (Suc n)
  let ?G = "GetQueryExecution (lstrip ''ID'' qid)"
  let ?st = "execution_state A (calls w @ [?G])"
  show ?case
  proof (cases "?st = ''FAILED''")
    case True
    with Suc.prems have "w' = py_print (Text ''The query failed. Check the Athena history for details.'')
        (w\<lparr>calls := calls w @ [?G]\<rparr>)" and "\<not> ok"
      by (simp_all add: Let_def)
    with True show ?thesis
      by (intro exI [of _ 1]) (simp add: py_print_def)
  next
    case nf: False
    let ?w3 = "(py_print (Text ''Running'') (w\<lparr>calls := calls w @ [?G]\<rparr>))
                 \<lparr>slept := slept (py_print (Text ''Running'') (w\<lparr>calls := calls w @ [?G]\<rparr>)) + 5\<rparr>"
    show ?thesis
    proof (cases "?st = ''SUCCEEDED''")
      case True
      with nf Suc.prems have "w' = ?w3" and "ok"
        by (simp_all add: Let_def)
      with True show ?thesis
        by (intro exI [of _ 1]) (simp add: py_print_def)
    next
      case False
      with nf Suc.prems have "poll n A qid ?w3 = Some (w', ok)"
        by (simp add: Let_def)
      from Suc.IH [OF this] obtain k where k: "0 < k" "k \<le> n"
        "calls w' = calls ?w3 @ replicate k ?G"
        "execution_state A (calls w') = (if ok then ''SUCCEEDED'' else ''FAILED'')"
        "stdout w' = stdout ?w3 @ (if ok then replicate k (Text ''Running'')
          else replicate (k - 1) (Text ''Running'')
               @ [Text ''The query failed. Check the Athena history for details.''])"
        "slept w' = slept ?w3 + 5 * (if ok then k else k - 1)"
        "retrieve_function_arns_count w' = retrieve_function_arns_count ?w3"
        "get_set_of_function_arns_from_result_set_count w' = get_set_of_function_arns_from_result_set_count ?w3"
        by blast
      from k show ?thesis
        apply (intro exI [of _ "Suc k"])
        apply (cases k)
         apply (simp_all add: py_print_def replicate_app_Cons_same)
        done
    qed
  qed
qed

lemma polled_0: "polled 0 qid w = w"
  by (simp add: polled_def)

lemma polled_Suc:
  "polled (Suc k) qid w =
     polled k qid ((py_print (Text ''Running'')
        (w\<lparr>calls := calls w @ [GetQueryExecution (lstrip ''ID'' qid)]\<rparr>))
          \<lparr>slept := slept w + 5\<rparr>)"
  by (simp add: polled_def py_print_def)

lemma poll_not_final:
  "(\<forall>j<k. execution_state A (calls w @ replicate (Suc j) (GetQueryExecution (lstrip ''ID'' qid)))
            \<notin> {''FAILED'', ''SUCCEEDED''}) \<Longrightarrow>
   poll (k + n) A qid w = poll n A qid (polled k qid w)"
proof (induction k arbitrary: w)
  case 0
  then show ?case by (simp add: polled_0)
next
  case (Suc k)
  let ?G = "GetQueryExecution (lstrip ''ID'' qid)"
  let ?w3 = "(py_print (Text ''Running'') (w\<lparr>calls := calls w @ [?G]\<rparr>))\<lparr>slept := slept w + 5\<rparr>"
  from Suc.prems have st: "execution_state A (calls w @ [?G]) \<notin> {''FAILED'', ''SUCCEEDED''}"
    by (metis replicate_0 replicate_Suc zero_less_Suc)
  have "\<forall>j<k. execution_state A (calls ?w3 @ replicate (Suc j) ?G) \<notin> {''FAILED'', ''SUCCEEDED''}"
  proof (intro allI impI)
    fix j assume "j < k"
    then have "execution_state A (calls w @ replicate (Suc (Suc j)) ?G) \<notin> {''FAILED'', ''SUCCEEDED''}"
      using Suc.prems by (meson Suc_less_eq)
    then show "execution_state A (calls ?w3 @ replicate (Suc j) ?G) \<notin> {''FAILED'', ''SUCCEEDED''}"
      by (simp add: py_print_def)
  qed
  from Suc.IH [OF this] have "poll (k + n) A qid ?w3 = poll n A qid (polled k qid ?w3)" .
  moreover have "poll (Suc k + n) A qid w = poll (k + n) A qid ?w3"
    using st by (simp add: Let_def py_print_def)
  ultimately show ?case by (simp add: polled_Suc)
qed

lemma poll_failed_at:
  assumes "\<forall>j<k. execution_state A (calls w @ replicate (Suc j) (GetQueryExecution (lstrip ''ID'' qid)))
            \<notin> {''FAILED'', ''SUCCEEDED''}"
    and "execution_state A (calls w @ replicate (Suc k) (GetQueryExecution (lstrip ''ID'' qid))) = ''FAILED''"
    and "k < fuel"
  shows "poll fuel A qid w =
     Some (py_print (Text ''The query failed. Check the Athena history for details.'')
             ((polled k qid w)\<lparr>calls := calls w @ replicate (Suc k) (GetQueryExecution (lstrip ''ID'' qid))\<rparr>),
           False)"
proof -
  from assms(3) obtain n where n: "fuel = k + Suc n"
    by (metis add_Suc_right less_iff_Suc_add)
  have "calls (polled k qid w) @ [GetQueryExecution (lstrip ''ID'' qid)]
        = calls w @ replicate (Suc k) (GetQueryExecution (lstrip ''ID'' qid))"
    by (simp add: polled_def replicate_append_same)
  with assms(2) show ?thesis
    unfolding n poll_not_final [OF assms(1)] by (simp add: Let_def)
qed

lemma poll_succeeded_at:
  assumes "\<forall>j<k. execution_state A (calls w @ replicate (Suc j) (GetQueryExecution (lstrip ''ID'' qid)))
            \<notin> {''FAILED'', ''SUCCEEDED''}"
    and "execution_state A (calls w @ replicate (Suc k) (GetQueryExecution (lstrip ''ID'' qid))) = ''SUCCEEDED''"
    and "k < fuel"
  shows "poll fuel A qid w = Some (polled (Suc k) qid w, True)"
proof -
  from assms(3) obtain n where n: "fuel = k + Suc n"
    by (metis add_Suc_right less_iff_Suc_add)
  have "calls (polled k qid w) @ [GetQueryExecution (lstrip ''ID'' qid)]
        = calls w @ replicate (Suc k) (GetQueryExecution (lstrip ''ID'' qid))"
    by (simp add: polled_def replicate_append_same)
  with assms(2) show ?thesis
    unfolding n poll_not_final [OF assms(1)]
    by (simp add: Let_def polled_def py_print_def replicate_append_same)
qed

section \<open>run_query and the sequence of queries\<close>

lemma submitted_append: "submitted (xs @ ys) = submitted xs @ submitted ys"
  by (induction xs rule: submitted.induct) simp_all

lemma submitted_polls: "submitted (replicate k (GetQueryExecution i)) = []"
  by (induction k) simp_all

lemma run_query_Some:
  assumes "run_query fuel A query region bucket w = Some (w', res)"
  shows "\<exists>k. 0 < k \<and> k \<le> fuel
     \<and> calls w' = calls w @ StartQueryExecution query ''default'' (bucket @ ''-'' @ region)
          # replicate k (GetQueryExecution (lstrip ''ID'' (query_execution_id A
              (calls w @ [StartQueryExecution query ''default'' (bucket @ ''-'' @ region)]))))
          @ (case res of None \<Rightarrow> []
             | Some rows \<Rightarrow> [GetQueryResults (query_execution_id A
              (calls w @ [StartQueryExecution query ''default'' (bucket @ ''-'' @ region)]))])
     \<and> retrieve_function_arns_count w' = retrieve_function_arns_count w"
proof -
  let ?h = "calls w @ [StartQueryExecution query ''default'' (bucket @ ''-'' @ region)]"
  let ?qid = "query_execution_id A ?h"
  let ?w2 = "py_print (Text (''Query Execution ID: '' @ ?qid)) (w\<lparr>calls := ?h\<rparr>)"
  from assms obtain w3 ok where p: "poll fuel A ?qid ?w2 = Some (w3, ok)"
    by (auto simp: run_query_def Let_def split: option.splits)
  from poll_Some [OF p] obtain k where k: "0 < k" "k \<le> fuel"
    "calls w3 = calls ?w2 @ replicate k (GetQueryExecution (lstrip ''ID'' ?qid))"
    "retrieve_function_arns_count w3 = retrieve_function_arns_count ?w2"
    by blast
  from assms p have "(ok \<longrightarrow> w' = w3\<lparr>calls := calls w3 @ [GetQueryResults ?qid]\<rparr> \<and> res \<noteq> None)
      \<and> (\<not> ok \<longrightarrow> w' = w3 \<and> res = None)"
    by (auto simp: run_query_def Let_def)
  with k show ?thesis
    by (intro exI [of _ k]) (cases ok; auto simp: py_print_def)
qed

lemma run_query_submitted:
  "run_query fuel A query region bucket w = Some (w', res) \<Longrightarrow>
   submitted (calls w') = submitted (calls w) @ [query]
   \<and> retrieve_function_arns_count w' = retrieve_function_arns_count w"
  by (drule run_query_Some) (auto simp: submitted_append submitted_polls split: option.splits)

lemma run_queries_submitted:
  "run_queries fuel A qs region bucket w = Some (w', rs) \<Longrightarrow>
   submitted (calls w') = submitted (calls w) @ qs \<and> length rs = length qs
   \<and> retrieve_function_arns_count w' = retrieve_function_arns_count w"
proof (induction qs arbitrary: w rs)
  case Nil
  then show ?case by simp
next
  case (Cons q qs)
  from Cons.prems obtain w1 r rs' where
    1: "run_query fuel A q region bucket w = Some (w1, r)"
    and 2: "run_queries fuel A qs region bucket w1 = Some (w', rs')"
    and rs: "rs = r # rs'"
    by (auto split: option.splits)
  from run_query_submitted [OF 1] Cons.IH [OF 2] rs show ?case by simp
qed

lemma run_query_failed_at:
  assumes "\<forall>j<k. execution_state A (h @ replicate (Suc j) G) \<notin> {''FAILED'', ''SUCCEEDED''}"
    and "execution_state A (h @ replicate (Suc k) G) = ''FAILED''"
    and "k < fuel"
    and h: "h = calls w @ [StartQueryExecution query ''default'' (bucket @ ''-'' @ region)]"
    and G: "G = GetQueryExecution (lstrip ''ID'' (query_execution_id A h))"
  shows "run_query fuel A query region bucket w =
     Some (w\<lparr>calls := h @ replicate (Suc k) G,
             stdout := stdout w @ Text (''Query Execution ID: '' @ query_execution_id A h)
               # replicate k (Text ''Running'')
               @ [Text ''The query failed. Check the Athena history for details.''],
             slept := slept w + 5 * k\<rparr>, None)"
proof -
  let ?qid = "query_execution_id A h"
  let ?w2 = "py_print (Text (''Query Execution ID: '' @ ?qid)) (w\<lparr>calls := h\<rparr>)"
  have c: "calls ?w2 = h" by (simp add: py_print_def)
  have "poll fuel A ?qid ?w2 =
     Some (py_print (Text ''The query failed. Check the Athena history for details.'')
             ((polled k ?qid ?w2)\<lparr>calls := calls ?w2 @ replicate (Suc k) (GetQueryExecution (lstrip ''ID'' ?qid))\<rparr>),
           False)"
    using assms(1,2) by (intro poll_failed_at) (simp_all only: c G assms(3))
  then show ?thesis
    unfolding h G by (simp add: run_query_def Let_def polled_def py_print_def)
qed

lemma run_query_succeeded_at:
  assumes "\<forall>j<k. execution_state A (h @ replicate (Suc j) G) \<notin> {''FAILED'', ''SUCCEEDED''}"
    and "execution_state A (h @ replicate (Suc k) G) = ''SUCCEEDED''"
    and "k < fuel"
    and h: "h = calls w @ [StartQueryExecution query ''default'' (bucket @ ''-'' @ region)]"
    and G: "G = GetQueryExecution (lstrip ''ID'' (query_execution_id A h))"
  shows "run_query fuel A query region bucket w =
     Some (w\<lparr>calls := h @ replicate (Suc k) G @ [GetQueryResults (query_execution_id A h)],
             stdout := stdout w @ Text (''Query Execution ID: '' @ query_execution_id A h)
               # replicate (Suc k) (Text ''Running''),
             slept := slept w + 5 * Suc k\<rparr>,
           Some (result_rows A (h @ replicate (Suc k) G @ [GetQueryResults (query_execution_id A h)])))"
proof -
  let ?qid = "query_execution_id A h"
  let ?w2 = "py_print (Text (''Query Execution ID: '' @ ?qid)) (w\<lparr>calls := h\<rparr>)"
  have c: "calls ?w2 = h" by (simp add: py_print_def)
  have "poll fuel A ?qid ?w2 = Some (polled (Suc k) ?qid ?w2, True)"
    using assms(1,2) by (intro poll_succeeded_at) (simp_all only: c G assms(3))
  then show ?thesis
    unfolding h G by (simp add: run_query_def Let_def polled_def py_print_def)
qed

section \<open>The reconciliation\<close>



lemma foldl_py_print:
  "foldl (\<lambda>v x. py_print (Text x) v) w xs = w\<lparr>stdout := stdout w @ map Text xs\<rparr>"
  by (induction xs arbitrary: w) (simp_all add: py_print_def)


section \<open>main\<close>

lemma main_empty:
  "main fuel E A [] args w =
     Some (w\<lparr>retrieve_function_arns_count := 0,
             stdout := stdout w @
               [Emojized '':information:  Found {} functions in the AWS '' [py_str_int 0]
                  (arg_region args @ '' region'' @ nl),
                Emojized '':heavy_exclamation_mark:  The script will now exit!'' [] []]\<rparr>,
           SysExit)"
  by (simp add: main_def retrieve_function_arns_empty)

lemma main_nonempty:
  "functions \<noteq> [] \<Longrightarrow>
   main fuel E A functions args w =
     (case run_queries fuel A
             [concat (map (fill [arg_table_name args, arg_cloudtrail_s3_bucket_name args] [])
                 create_table_query_pieces),
              concat (map (fill [arg_table_name args, arg_cloudtrail_s3_bucket_name args,
                                 arg_region args, py_str (arg_year args)] [])
                 create_partiton_query_pieces),
              concat (map (fill [arg_table_name args, py_str (arg_year args)]
                             [(''function_arns'', slice_1_m1 (py_str_list functions))])
                 last_run_query_pieces)]
             (arg_region args) (arg_athena_s3_bucket_name args)
             (w\<lparr>retrieve_function_arns_count := int (length functions),
                stdout := stdout w @
                  [Emojized '':information:  Found {} functions in the AWS ''
                     [py_str_int (int (length functions))] (arg_region args @ '' region'' @ nl),
                   Text (replicate (columns E) CHR ''-''), Text ''Starting queries'']\<rparr>) of
        None \<Rightarrow> None
      | Some (w3, query_results) \<Rightarrow> Some (reconcile E functions query_results w3))"
  by (simp add: main_def retrieve_function_arns_nonempty build_query_strings_eq py_print_def)

lemma extract_loop_calls:
  "extract_loop rows s w = (w', r) \<Longrightarrow> calls w' = calls w"
proof (induction rows arbitrary: s w)
  case Nil
  then show ?case by simp
next
  case (Cons row rows)
  show ?case
  proof (cases row)
    case Nil
    with Cons.prems show ?thesis by (auto simp: Let_def)
  next
    case (Cons cell cells)
    show ?thesis
    proof (cases cell)
      case None
      with Cons Cons.prems show ?thesis by (auto simp: Let_def)
    next
      case (Some v)
      with Cons Cons.prems Cons.IH show ?thesis by (fastforce simp: Let_def)
    qed
  qed
qed

lemma run_queries_calls:
  "run_queries fuel A qs region bucket w = Some (w', rs) \<Longrightarrow> \<exists>more. calls w' = calls w @ more"
proof (induction qs arbitrary: w rs)
  case Nil
  then show ?case by simp
next
  case (Cons q qs)
  from Cons.prems obtain w1 r rs' where
    1: "run_query fuel A q region bucket w = Some (w1, r)"
    and 2: "run_queries fuel A qs region bucket w1 = Some (w', rs')"
    by (auto split: option.splits)
  from run_query_Some [OF 1] obtain m1 where "calls w1 = calls w @ m1" by blast
  moreover from Cons.IH [OF 2] obtain m2 where "calls w' = calls w1 @ m2" by blast
  ultimately show ?case by simp
qed

lemma reconcile_calls:
  assumes "reconcile E function_arns query_results w = (w', out)"
  shows "calls w' = calls w"
proof (cases "last query_results")
  case None
  with assms show ?thesis by (auto simp: reconcile_def Let_def py_print_def)
next
  case (Some result_set)
  let ?w1 = "py_print (Text ''Retrieved results'') (py_print (Text ''Completed queries'') w)"
  obtain w2 r where g: "get_set_of_function_arns_from_result_set result_set ?w1 = (w2, r)"
    by (cases "get_set_of_function_arns_from_result_set result_set ?w1") auto
  then have c2: "calls w2 = calls w"
    unfolding get_set_of_function_arns_from_result_set_def
    by (auto dest!: extract_loop_calls simp: py_print_def)
  show ?thesis
  proof (cases r)
    case (Returns U)
    let ?L = "sort_key str_lower (set_iteration E (set function_arns - U))"
    from assms Some g Returns obtain x y where
      "w' = py_print (Text (replicate (columns E) CHR ''-''))
           (py_print (Emojized '':checkered_flag:  Done!'' [] [])
             (foldl (\<lambda>v stale_function_arn. py_print (Text stale_function_arn) v)
               (py_print x (py_print y w2)) ?L))"
      by (auto simp: reconcile_def Let_def)
    then have "calls w' = calls w2"
      by (simp only: foldl_py_print) (simp add: py_print_def)
    with c2 show ?thesis by simp
  next
    case (Raises e)
    with assms Some g c2 show ?thesis by (auto simp: reconcile_def Let_def)
  next
    case SysExit
    with assms Some g c2 show ?thesis by (auto simp: reconcile_def Let_def)
  qed
qed

lemma run_queries_snoc:
  "run_queries fuel A (qs @ [q]) region bucket w =
     (case run_queries fuel A qs region bucket w of
        None \<Rightarrow> None
      | Some (w2, rs) \<Rightarrow>
          (case run_query fuel A q region bucket w2 of
             None \<Rightarrow> None
           | Some (w3, r) \<Rightarrow> Some (w3, rs @ [r])))"
  by (induction qs arbitrary: w) (auto split: option.splits)

section \<open>The Query Template Builder\<close>

text \<open>
  C7. Two invocations of \<open>build_query_strings\<close> with the same identifier list, table name,
  CloudTrail location, year and region return the same triple of SQL strings, whatever the
  terminal width, the iteration order of sets and the state they run in.
\<close>

theorem build_query_strings_deterministic:
  "\<exists>queries. snd (build_query_strings E1 function_arns table_name location year region w1) = Returns queries
     \<and> snd (build_query_strings E2 function_arns table_name location year region w2) = Returns queries"
  by (simp add: build_query_strings_eq)

text \<open>
  C8. For every table name, CloudTrail location, region and year, the second statement
  that \<open>build_query_strings\<close> returns is the add-partition statement for the given year,
  and its location is the CloudTrail location followed by \<open>/CloudTrail/\<close>, the region,
  \<open>/\<close>, the year and a closing \<open>/\<close>.
\<close>

theorem add_partition_statement:
  "\<exists>w' create_table_query last_run_query.
     build_query_strings E function_arns table_name location year region w =
       (w', Returns (create_table_query,
          nl @ ''    ALTER TABLE '' @ table_name @ '' add partition (year='' @ dq @ py_str year @ dq @ '')''
          @ nl @ ''    location '' @ sq @ partition_location location region (py_str year) @ sq,
          last_run_query))"
  by (simp add: build_query_strings_eq create_partition_query_eq partition_location_def)

section \<open>The Async Query Executor\<close>

text \<open>
  C6. For a job whose status requests answer \<open>RUNNING\<close>, \<open>RUNNING\<close>, \<open>SUCCEEDED\<close>,
  \<open>run_query\<close> (given fuel for three requests) makes exactly three status requests and
  fetches the result set after the third, not before: these are all the requests it sends
  after the submission, in this order.
\<close>

theorem run_query_running_running_succeeded:
  assumes h: "h = calls w @ [StartQueryExecution query ''default'' (bucket @ ''-'' @ region)]"
    and G: "G = GetQueryExecution (lstrip ''ID'' (query_execution_id A h))"
    and s1: "execution_state A (h @ [G]) = ''RUNNING''"
    and s2: "execution_state A (h @ [G, G]) = ''RUNNING''"
    and s3: "execution_state A (h @ [G, G, G]) = ''SUCCEEDED''"
    and fuel: "3 \<le> fuel"
  shows "\<exists>w'. run_query fuel A query region bucket w =
            Some (w', Some (result_rows A (h @ [G, G, G, GetQueryResults (query_execution_id A h)])))
          \<and> calls w' = h @ [G, G, G, GetQueryResults (query_execution_id A h)]"
proof -
  have nf: "\<forall>j<2. execution_state A (h @ replicate (Suc j) G) \<notin> {''FAILED'', ''SUCCEEDED''}"
    using s1 s2 by (simp add: less_Suc_eq numeral_2_eq_2)
  have ok: "execution_state A (h @ replicate (Suc 2) G) = ''SUCCEEDED''"
    using s3 by (simp add: numeral_2_eq_2)
  have lt: "2 < fuel" using fuel by simp
  show ?thesis
    unfolding run_query_succeeded_at [OF nf ok lt h G]
    by (simp add: numeral_2_eq_2)
qed

theorem run_query_running_running_succeeded_witness:
  "\<exists>w'. run_query 3 engine_running_twice ''select 1'' ''us-east-1'' ''s3://staging'' example_world =
            Some (w', Some [header])
     \<and> calls w' = [StartQueryExecution ''select 1'' ''default'' ''s3://staging-us-east-1'',
          GetQueryExecution ''7c1d'', GetQueryExecution ''7c1d'', GetQueryExecution ''7c1d'',
          GetQueryResults ''7c1d'']"
  using run_query_running_running_succeeded
    [of _ example_world "''select 1''" "''s3://staging''" "''us-east-1''" _ engine_running_twice 3,
     OF refl refl]
  by (simp add: engine_running_twice_def example_world_def lstrip_def)

text \<open>
  C9. Every status request of \<open>run_query\<close> carries the execution id that the submission
  returned with all its leading \<open>I\<close> and \<open>D\<close> characters removed, while the result request
  carries the id as returned. The id of the status requests is the submitted one exactly
  when that id does not begin with \<open>I\<close> or \<open>D\<close>.
\<close>

theorem status_request_id_is_stripped:
  assumes run: "run_query fuel A query region bucket w = Some (w', res)"
    and qid: "qid = query_execution_id A
        (calls w @ [StartQueryExecution query ''default'' (bucket @ ''-'' @ region)])"
  shows "(\<exists>k. 0 < k \<and> calls w' =
            calls w @ StartQueryExecution query ''default'' (bucket @ ''-'' @ region)
              # replicate k (GetQueryExecution (dropWhile (\<lambda>c. c = CHR ''I'' \<or> c = CHR ''D'') qid))
              @ (case res of None \<Rightarrow> [] | Some rows \<Rightarrow> [GetQueryResults qid]))
       \<and> (dropWhile (\<lambda>c. c = CHR ''I'' \<or> c = CHR ''D'') qid = qid
            \<longleftrightarrow> \<not> (\<exists>c cs. qid = c # cs \<and> (c = CHR ''I'' \<or> c = CHR ''D'')))"
proof -
  have l: "lstrip ''ID'' qid = dropWhile (\<lambda>c. c = CHR ''I'' \<or> c = CHR ''D'') qid"
    by (simp add: lstrip_def)
  from run_query_Some [OF run] have "\<exists>k. 0 < k \<and> calls w' =
            calls w @ StartQueryExecution query ''default'' (bucket @ ''-'' @ region)
              # replicate k (GetQueryExecution (lstrip ''ID'' qid))
              @ (case res of None \<Rightarrow> [] | Some rows \<Rightarrow> [GetQueryResults qid])"
    unfolding qid by blast
  moreover have "dropWhile (\<lambda>c. c = CHR ''I'' \<or> c = CHR ''D'') qid = qid
            \<longleftrightarrow> \<not> (\<exists>c cs. qid = c # cs \<and> (c = CHR ''I'' \<or> c = CHR ''D''))"
  proof (cases qid)
    case Nil
    then show ?thesis by simp
  next
    case (Cons c cs)
    have "length (dropWhile (\<lambda>c. c = CHR ''I'' \<or> c = CHR ''D'') cs) \<le> length cs"
      by (rule length_dropWhile_le)
    then have "dropWhile (\<lambda>c. c = CHR ''I'' \<or> c = CHR ''D'') cs \<noteq> c # cs"
      by (metis impossible_Cons)
    with Cons show ?thesis by auto
  qed
  ultimately show ?thesis unfolding l by blast
qed

theorem status_request_id_is_stripped_witness:
  "\<exists>w' res. run_query 1 engine_ID ''select 1'' ''us-east-1'' ''s3://staging'' example_world = Some (w', res)
     \<and> calls w' = [StartQueryExecution ''select 1'' ''default'' ''s3://staging-us-east-1'',
          GetQueryExecution ''-7'', GetQueryResults ''ID-7'']"
proof -
  have "\<exists>w' res. run_query 1 engine_ID ''select 1'' ''us-east-1'' ''s3://staging'' example_world = Some (w', res)"
    by (simp add: run_query_def engine_ID_def Let_def)
  then obtain w' res where
    run: "run_query 1 engine_ID ''select 1'' ''us-east-1'' ''s3://staging'' example_world = Some (w', res)"
    by blast
  then have res: "res \<noteq> None"
    by (auto simp: run_query_def engine_ID_def Let_def)
  from status_request_id_is_stripped [OF run refl] obtain k where k: "0 < k"
    "calls w' = calls example_world @ StartQueryExecution ''select 1'' ''default'' (''s3://staging'' @ ''-'' @ ''us-east-1'')
       # replicate k (GetQueryExecution (dropWhile (\<lambda>c. c = CHR ''I'' \<or> c = CHR ''D'')
            (query_execution_id engine_ID (calls example_world @
               [StartQueryExecution ''select 1'' ''default'' (''s3://staging'' @ ''-'' @ ''us-east-1'')]))))
       @ (case res of None \<Rightarrow> [] | Some rows \<Rightarrow> [GetQueryResults (query_execution_id engine_ID (calls example_world @
               [StartQueryExecution ''select 1'' ''default'' (''s3://staging'' @ ''-'' @ ''us-east-1'')]))])"
    by blast
  from run_query_Some [OF run] k have "k = 1"
    by (auto simp: example_world_def)
  with k res run show ?thesis
    by (auto simp: engine_ID_def example_world_def)
qed

section \<open>The Inventory Differ\<close>


lemma main_nonempty_ex:
  assumes "functions \<noteq> []"
  shows "\<exists>qs w0. length qs = 3 \<and> calls w0 = calls w
     \<and> retrieve_function_arns_count w0 = int (length functions)
     \<and> main fuel E A functions args w =
         (case run_queries fuel A qs (arg_region args) (arg_athena_s3_bucket_name args) w0 of
            None \<Rightarrow> None
          | Some (w3, query_results) \<Rightarrow> Some (reconcile E functions query_results w3))"
  unfolding main_nonempty [OF assms]
  apply (intro exI conjI)
     prefer 4
     apply (rule refl)
    apply simp_all
  done

lemma main_Returns:
  assumes "main fuel E A functions args w = Some (w', Returns rep)"
  shows "\<exists>w3 query_results.
     reconcile E functions query_results w3 = (w', Returns rep)
     \<and> retrieve_function_arns_count w3 = int (length functions)"
proof -
  from assms have ne: "functions \<noteq> []"
    by (auto simp: main_empty)
  from main_nonempty_ex [OF ne, of w fuel E A args] obtain qs w0 where
    w0: "retrieve_function_arns_count w0 = int (length functions)"
    and m: "main fuel E A functions args w =
         (case run_queries fuel A qs (arg_region args) (arg_athena_s3_bucket_name args) w0 of
            None \<Rightarrow> None
          | Some (w3, query_results) \<Rightarrow> Some (reconcile E functions query_results w3))"
    by blast
  from assms m obtain w3 query_results where
    q: "run_queries fuel A qs (arg_region args) (arg_athena_s3_bucket_name args) w0 = Some (w3, query_results)"
    and r: "reconcile E functions query_results w3 = (w', Returns rep)"
    by (auto split: option.splits)
  from run_queries_submitted [OF q] w0 r show ?thesis by auto
qed








text \<open>
  C2. There are an inventory and a used set, the used set holding an identifier that the
  inventory lacks, for which the reported count, the number of inventory entries minus the
  number of rows after the header, differs from the size of the set difference: with the
  inventory \<open>a\<close> and the invoked function \<open>b\<close> the count is \<open>1 - 1 = 0\<close> while the
  difference has one element.
\<close>

theorem count_differs_from_difference_size:
  "\<exists>fuel E A functions args w w' rep.
     main fuel E A functions args w = Some (w', Returns rep)
     \<and> \<not> rep_set_of_functions_used rep \<subseteq> set functions
     \<and> rep_unusedcount rep = int (length functions) - int (length (drop 1 (rep_result_set rep)))
     \<and> rep_unusedcount rep \<noteq> int (card (set functions - rep_set_of_functions_used rep))"
proof -
  let ?rep = "\<lparr>rep_function_arns = [''a''],
       rep_result_set = [header, [Some ''b'', Some ''2024-05-01T00:00:00Z'']],
       rep_set_of_functions_used = {''b''}, rep_unusedcount = 0,
       rep_difference_list = sort_key str_lower (sorted_list_of_set (set [''a''] - {''b''}))\<rparr>"
  have "\<exists>w'. main 1 example_env engine_used_b [''a''] example_args example_world =
    Some (w', Returns ?rep)"
    by (simp add: main_nonempty run_query_def Let_def engine_used_b_def example_world_def
        example_env_def example_args_def py_print_def reconcile_def
        get_set_of_function_arns_from_result_set_def)
  then obtain w' where run:
    "main 1 example_env engine_used_b [''a''] example_args example_world = Some (w', Returns ?rep)"
    by blast
  have "\<not> rep_set_of_functions_used ?rep \<subseteq> set [''a'']" by simp
  moreover have "set [''a''] - {''b''} = {''a''}" by auto
  then have "rep_unusedcount ?rep \<noteq> int (card (set [''a''] - rep_set_of_functions_used ?rep))"
    by simp
  moreover have "rep_unusedcount ?rep = int (length [''a'']) - int (length (drop 1 (rep_result_set ?rep)))"
    by simp
  ultimately show ?thesis using run by blast
qed

section \<open>Failures and the empty inventory\<close>

lemma main_submitted:
  assumes "functions \<noteq> []" and "main fuel E A functions args w = Some (w', out)"
  shows "length (submitted (calls w')) = length (submitted (calls w)) + 3"
proof -
  from main_nonempty_ex [OF assms(1), of w fuel E A args] obtain qs w0 where
    l: "length qs = 3" and c: "calls w0 = calls w"
    and m: "main fuel E A functions args w =
         (case run_queries fuel A qs (arg_region args) (arg_athena_s3_bucket_name args) w0 of
            None \<Rightarrow> None
          | Some (w3, query_results) \<Rightarrow> Some (reconcile E functions query_results w3))"
    by blast
  from assms(2) m obtain w3 query_results where
    q: "run_queries fuel A qs (arg_region args) (arg_athena_s3_bucket_name args) w0 = Some (w3, query_results)"
    and r: "reconcile E functions query_results w3 = (w', out)"
    by (auto split: option.splits)
  have "calls w' = calls w3"
    using r by (rule reconcile_calls)
  with run_queries_submitted [OF q] l c show ?thesis by simp
qed

text \<open>
  C3, as amended. When the job of a submitted statement reports \<open>FAILED\<close>, \<open>run_query\<close>
  stops polling that job, prints the failure report and returns no result, without
  fetching one. The run is not aborted: the comprehension over the statements goes on, and
  the next statement is submitted right after the last status request of the failed job.
  Every run of \<open>main\<close> that ends, with an inventory that is not empty, has submitted three
  statements.
\<close>

theorem failed_job_is_reported_and_next_statement_submitted:
  assumes h: "h = calls w @ [StartQueryExecution query ''default'' (bucket @ ''-'' @ region)]"
    and G: "G = GetQueryExecution (lstrip ''ID'' (query_execution_id A h))"
    and nonfinal: "\<forall>j<k. execution_state A (h @ replicate (Suc j) G) \<notin> {''FAILED'', ''SUCCEEDED''}"
    and failed: "execution_state A (h @ replicate (Suc k) G) = ''FAILED''"
    and fuel: "k < fuel"
  shows "\<exists>w1. run_query fuel A query region bucket w = Some (w1, None)
     \<and> calls w1 = h @ replicate (Suc k) G
     \<and> last (stdout w1) = Text ''The query failed. Check the Athena history for details.''
     \<and> (\<forall>next rest w3 rs.
           run_queries fuel A (query # next # rest) region bucket w = Some (w3, rs) \<longrightarrow>
           hd rs = None \<and>
           (\<exists>later. calls w3 =
              calls w1 @ StartQueryExecution next ''default'' (bucket @ ''-'' @ region) # later))
     \<and> (\<forall>E functions args w0 w' out.
           functions \<noteq> [] \<longrightarrow> main fuel E A functions args w0 = Some (w', out) \<longrightarrow>
           length (submitted (calls w')) = length (submitted (calls w0)) + 3)"
proof -
  let ?w1 = "w\<lparr>calls := h @ replicate (Suc k) G,
             stdout := stdout w @ Text (''Query Execution ID: '' @ query_execution_id A h)
               # replicate k (Text ''Running'')
               @ [Text ''The query failed. Check the Athena history for details.''],
             slept := slept w + 5 * k\<rparr>"
  have run: "run_query fuel A query region bucket w = Some (?w1, None)"
    by (rule run_query_failed_at [OF nonfinal failed fuel h G])
  have next_submitted: "hd rs = None \<and>
           (\<exists>later. calls w3 =
              calls ?w1 @ StartQueryExecution next ''default'' (bucket @ ''-'' @ region) # later)"
    if "run_queries fuel A (query # next # rest) region bucket w = Some (w3, rs)"
    for "next" rest w3 rs
  proof -
    from that run obtain w2 r rs' where
      n: "run_query fuel A next region bucket ?w1 = Some (w2, r)"
      and rest: "run_queries fuel A rest region bucket w2 = Some (w3, rs')"
      and rs: "rs = None # r # rs'"
      by (auto split: option.splits)
    from run_query_Some [OF n] obtain mid where
      c2: "calls w2 = calls ?w1 @ StartQueryExecution next ''default'' (bucket @ ''-'' @ region) # mid"
      by blast
    from rest have "\<exists>more. calls w3 = calls w2 @ more"
      by (rule run_queries_calls)
    with c2 rs show ?thesis by auto
  qed
  have "calls ?w1 = h @ replicate (Suc k) G"
    and "last (stdout ?w1) = Text ''The query failed. Check the Athena history for details.''"
    by simp_all
  with run next_submitted main_submitted show ?thesis
    by (intro exI [of _ ?w1]) blast
qed

theorem failed_job_is_reported_and_next_statement_submitted_witness:
  "\<exists>w1 w3 rs later.
     run_query 1 engine_first_fails ''create table'' ''us-east-1'' ''s3://staging'' example_world
       = Some (w1, None)
     \<and> calls w1 = [StartQueryExecution ''create table'' ''default'' ''s3://staging-us-east-1'',
                   GetQueryExecution ''7c1d'']
     \<and> last (stdout w1) = Text ''The query failed. Check the Athena history for details.''
     \<and> run_queries 1 engine_first_fails [''create table'', ''add partition'', ''usage query'']
          ''us-east-1'' ''s3://staging'' example_world = Some (w3, rs)
     \<and> calls w3 = calls w1
          @ StartQueryExecution ''add partition'' ''default'' ''s3://staging-us-east-1'' # later"
proof -
  have "\<exists>w3 rs. run_queries 1 engine_first_fails [''create table'', ''add partition'', ''usage query'']
          ''us-east-1'' ''s3://staging'' example_world = Some (w3, rs)"
    by (simp add: run_query_def Let_def engine_first_fails_def example_world_def py_print_def lstrip_def)
  then obtain w3 rs where q:
    "run_queries 1 engine_first_fails [''create table'', ''add partition'', ''usage query'']
          ''us-east-1'' ''s3://staging'' example_world = Some (w3, rs)"
    by blast
  have f: "execution_state engine_first_fails
      ((calls example_world @ [StartQueryExecution ''create table'' ''default'' (''s3://staging'' @ ''-'' @ ''us-east-1'')])
       @ replicate (Suc 0) (GetQueryExecution (lstrip ''ID'' (query_execution_id engine_first_fails
          (calls example_world @ [StartQueryExecution ''create table'' ''default'' (''s3://staging'' @ ''-'' @ ''us-east-1'')])))))
     = ''FAILED''"
    by (simp add: engine_first_fails_def example_world_def)
  have n: "\<forall>j<0. execution_state engine_first_fails
      ((calls example_world @ [StartQueryExecution ''create table'' ''default'' (''s3://staging'' @ ''-'' @ ''us-east-1'')])
       @ replicate (Suc j) (GetQueryExecution (lstrip ''ID'' (query_execution_id engine_first_fails
          (calls example_world @ [StartQueryExecution ''create table'' ''default'' (''s3://staging'' @ ''-'' @ ''us-east-1'')])))))
     \<notin> {''FAILED'', ''SUCCEEDED''}"
    by simp
  from failed_job_is_reported_and_next_statement_submitted [OF refl refl n f, of 1] q
  show ?thesis
    by (simp add: engine_first_fails_def example_world_def lstrip_def) blast
qed

text \<open>
  C3 as first stated fails: the job of the first statement fails, the second and
  the third statement are submitted all the same, and \<open>main\<close> returns.
\<close>

theorem statements_submitted_after_failed_job:
  "run_queries 1 engine_first_fails [''create table'', ''add partition'', ''usage query'']
      ''us-east-1'' ''s3://staging'' example_world =
     Some (\<lparr>stdout = [Text ''Query Execution ID: 7c1d'',
                       Text ''The query failed. Check the Athena history for details.'',
                       Text ''Query Execution ID: 7c1d'', Text ''Running'',
                       Text ''Query Execution ID: 7c1d'', Text ''Running''],
             calls = [StartQueryExecution ''create table'' ''default'' ''s3://staging-us-east-1'',
                      GetQueryExecution ''7c1d'',
                      StartQueryExecution ''add partition'' ''default'' ''s3://staging-us-east-1'',
                      GetQueryExecution ''7c1d'', GetQueryResults ''7c1d'',
                      StartQueryExecution ''usage query'' ''default'' ''s3://staging-us-east-1'',
                      GetQueryExecution ''7c1d'', GetQueryResults ''7c1d''],
             slept = 10, retrieve_function_arns_count = 0,
             get_set_of_function_arns_from_result_set_count = 0\<rparr>,
           [None, Some [header], Some [header]])
   \<and> map_option (length \<circ> submitted \<circ> calls \<circ> fst)
        (main 1 example_env engine_first_fails [''a''] example_args example_world) = Some 3
   \<and> map_option (exit_status \<circ> snd)
        (main 1 example_env engine_first_fails [''a''] example_args example_world) = Some 0"
  by (simp add: main_nonempty run_query_def Let_def engine_first_fails_def example_world_def
      example_env_def example_args_def py_print_def reconcile_def lstrip_def
      get_set_of_function_arns_from_result_set_def header_def foldl_py_print)

text \<open>
  C4, as amended. When the inventory fetch returns no function identifier, the process
  ends through \<open>sys.exit()\<close> without an argument, so with exit status 0.
\<close>

theorem empty_inventory_exit_status:
  "map_option snd (main fuel E A [] args w) = Some SysExit
   \<and> map_option (exit_status \<circ> snd) (main fuel E A [] args w) = Some 0"
  by (simp add: main_empty)

text \<open>C4 as first stated fails: with an empty inventory the exit status is 0.\<close>

theorem exit_status_zero_on_empty_inventory:
  "map_option (exit_status \<circ> snd)
     (main 1 example_env engine_succeeds [] example_args example_world) = Some 0"
  by (simp add: main_empty)

text \<open>
  C5. When the inventory fetch returns no identifier, \<open>main\<close> ends at once, whatever the
  fuel: it has printed the number found and the notice of the exit and nothing else (so not
  the line that \<open>build_query_strings\<close> starts with), has sent no request to the engine and
  has not slept.
\<close>

theorem empty_inventory_ends_before_any_query:
  "\<exists>w'. main fuel E A [] args w = Some (w', SysExit)
     \<and> calls w' = calls w
     \<and> submitted (calls w') = submitted (calls w)
     \<and> slept w' = slept w
     \<and> stdout w' = stdout w @
          [Emojized '':information:  Found {} functions in the AWS '' [py_str_int 0]
             (arg_region args @ '' region'' @ nl),
           Emojized '':heavy_exclamation_mark:  The script will now exit!'' [] []]"
  by (simp add: main_empty)

text \<open>
  C10. When the job of the usage query, the last of the three, reports \<open>FAILED\<close>,
  \<open>run_query\<close> returns \<open>None\<close> after printing its failure report, and \<open>main\<close>, which
  subscripts that value, ends with a \<open>TypeError\<close> that nothing handles, so with the exit
  status 1 of an uncaught exception and not through \<open>sys.exit()\<close>.
\<close>

theorem failed_usage_query_ends_in_TypeError:
  assumes ne: "functions \<noteq> []"
    and qs: "snd (build_query_strings E functions (arg_table_name args)
                (arg_cloudtrail_s3_bucket_name args) (arg_year args) (arg_region args) w)
             = Returns (q1, q2, q3)"
    and w0: "w0 = py_print (Text ''Starting queries'')
               (fst (build_query_strings E functions (arg_table_name args)
                  (arg_cloudtrail_s3_bucket_name args) (arg_year args) (arg_region args)
                  (fst (retrieve_function_arns functions (arg_region args) w))))"
    and two: "run_queries fuel A [q1, q2] (arg_region args) (arg_athena_s3_bucket_name args) w0
              = Some (w2, rs)"
    and h: "h = calls w2 @ [StartQueryExecution q3 ''default''
                              (arg_athena_s3_bucket_name args @ ''-'' @ arg_region args)]"
    and G: "G = GetQueryExecution (lstrip ''ID'' (query_execution_id A h))"
    and nonfinal: "\<forall>j<k. execution_state A (h @ replicate (Suc j) G) \<notin> {''FAILED'', ''SUCCEEDED''}"
    and failed: "execution_state A (h @ replicate (Suc k) G) = ''FAILED''"
    and fuel: "k < fuel"
  shows "\<exists>w3. run_query fuel A q3 (arg_region args) (arg_athena_s3_bucket_name args) w2 = Some (w3, None)
     \<and> last (stdout w3) = Text ''The query failed. Check the Athena history for details.''
     \<and> main fuel E A functions args w = Some (py_print (Text ''Completed queries'') w3, Raises TypeError)
     \<and> map_option (exit_status \<circ> snd) (main fuel E A functions args w) = Some 1"
proof -
  let ?w3 = "w2\<lparr>calls := h @ replicate (Suc k) G,
             stdout := stdout w2 @ Text (''Query Execution ID: '' @ query_execution_id A h)
               # replicate k (Text ''Running'')
               @ [Text ''The query failed. Check the Athena history for details.''],
             slept := slept w2 + 5 * k\<rparr>"
  have run: "run_query fuel A q3 (arg_region args) (arg_athena_s3_bucket_name args) w2 = Some (?w3, None)"
    by (rule run_query_failed_at [OF nonfinal failed fuel h G])
  have three: "run_queries fuel A ([q1, q2] @ [q3]) (arg_region args) (arg_athena_s3_bucket_name args) w0
        = Some (?w3, rs @ [None])"
    unfolding run_queries_snoc using two run by simp
  have q: "[concat (map (fill [arg_table_name args, arg_cloudtrail_s3_bucket_name args] [])
                 create_table_query_pieces),
              concat (map (fill [arg_table_name args, arg_cloudtrail_s3_bucket_name args,
                                 arg_region args, py_str (arg_year args)] [])
                 create_partiton_query_pieces),
              concat (map (fill [arg_table_name args, py_str (arg_year args)]
                             [(''function_arns'', slice_1_m1 (py_str_list functions))])
                 last_run_query_pieces)] = [q1, q2] @ [q3]"
    using qs by (simp add: build_query_strings_eq)
  have w0': "w\<lparr>retrieve_function_arns_count := int (length functions),
                stdout := stdout w @
                  [Emojized '':information:  Found {} functions in the AWS ''
                     [py_str_int (int (length functions))] (arg_region args @ '' region'' @ nl),
                   Text (replicate (columns E) CHR ''-''), Text ''Starting queries'']\<rparr> = w0"
    unfolding w0
    by (simp add: retrieve_function_arns_nonempty [OF ne] build_query_strings_eq py_print_def)
  have m: "main fuel E A functions args w = Some (reconcile E functions (rs @ [None]) ?w3)"
    unfolding main_nonempty [OF ne] q w0' three by simp
  have r: "reconcile E functions (rs @ [None]) ?w3 = (py_print (Text ''Completed queries'') ?w3, Raises TypeError)"
    by (simp add: reconcile_def)
  have "last (stdout ?w3) = Text ''The query failed. Check the Athena history for details.''"
    by simp
  with run m r show ?thesis
    by (intro exI [of _ ?w3]) simp
qed

theorem failed_usage_query_ends_in_TypeError_witness:
  "map_option snd (main 1 example_env engine_fails [''a''] example_args example_world)
     = Some (Raises TypeError)
   \<and> map_option (exit_status \<circ> snd)
        (main 1 example_env engine_fails [''a''] example_args example_world) = Some 1"
proof -
  obtain q1 q2 q3 where qs:
    "snd (build_query_strings example_env [''a''] (arg_table_name example_args)
                (arg_cloudtrail_s3_bucket_name example_args) (arg_year example_args)
                (arg_region example_args) example_world) = Returns (q1, q2, q3)"
    by (simp add: build_query_strings_eq)
  have ne: "[''a''] \<noteq> []" by simp
  let ?w0 = "py_print (Text ''Starting queries'')
               (fst (build_query_strings example_env [''a''] (arg_table_name example_args)
                  (arg_cloudtrail_s3_bucket_name example_args) (arg_year example_args)
                  (arg_region example_args)
                  (fst (retrieve_function_arns [''a''] (arg_region example_args) example_world))))"
  have "\<exists>w2 rs. run_queries 1 engine_fails [q1, q2] (arg_region example_args)
      (arg_athena_s3_bucket_name example_args) ?w0 = Some (w2, rs)"
    by (simp add: run_query_def Let_def engine_fails_def)
  then obtain w2 rs where two: "run_queries 1 engine_fails [q1, q2] (arg_region example_args)
      (arg_athena_s3_bucket_name example_args) ?w0 = Some (w2, rs)"
    by blast
  have n: "\<forall>j<0. execution_state engine_fails (hh @ replicate (Suc j) GG) \<notin> {''FAILED'', ''SUCCEEDED''}"
    for hh GG by simp
  have f: "execution_state engine_fails (hh @ replicate (Suc 0) GG) = ''FAILED''" for hh GG
    by (simp add: engine_fails_def)
  from failed_usage_query_ends_in_TypeError [OF ne qs refl two refl refl n f]
  show ?thesis by auto
qed

end
